theory Spec2Isabelle
  imports Complex_Main
begin

section \<open>The vision cache of a shape (client/src/game/shapes/shape.ts)\<close>

text \<open>
  The abstract class \<open>Shape\<close> keeps, for every shape, a lazily recomputed vision
  polygon together with a render path and a bounding box derived from it. This theory
  embeds the methods of \<open>shape.ts\<close> that read and invalidate that cache, the methods
  that notify the vision state, and the bookkeeping of snappable points on a layer.

  Conventions of the embedding.
  \<^item> A method that mutates \<open>this\<close> takes the shape and returns the updated shape.
  \<^item> The state of the collaborators of a shape (floor state, vision state, the
    property, aura and floor systems, the layers, and the \<open>Path2D\<close> objects that
    have been allocated) is the record \<open>World\<close>. Calls into a collaborator whose
    code is not part of \<open>shape.ts\<close> are appended to the trace \<open>events\<close>, in call
    order; what such a call does to the collaborator's own state is not modelled, and
    the theorems about a later read quantify over the world of that read.
  \<^item> Functions of other modules and abstract methods whose result is used by
    \<open>shape.ts\<close> are the fields of the record \<open>Env\<close>.
  \<^item> A JavaScript \<open>TypeError\<close> (a property read on \<open>undefined\<close>) is the value
    \<open>Inl TypeError\<close>; the state reached when it was thrown is returned with it.
  \<^item> JavaScript numbers that are coordinates are modelled by \<open>real\<close>, iteration
    counters by \<open>int\<close>.
\<close>

subsection \<open>Data\<close>

type_synonym LocalId = nat
type_synonym FloorId = nat
type_synonym Floor = nat
type_synonym LayerRef = nat
type_synonym Path2DRef = nat

text \<open>Of the enumeration \<open>LayerName\<close> only the member \<open>Draw\<close> is named in \<open>shape.ts\<close>.\<close>

datatype LayerName = Draw | OtherLayer string

datatype TriangulationTarget = VISION | MOVEMENT

datatype GlobalPoint = toGP (gp_x: real) (gp_y: real)

datatype Vector = Vector real real

datatype BoundingRect = BoundingRect (topLeft: GlobalPoint) (rect_w: real) (rect_h: real)

text \<open>The calls recorded on a \<open>Path2D\<close> object.\<close>

datatype PathCmd = MoveTo real real | LineTo real real | ClosePath

datatype error = TypeError

text \<open>The fields of the properties and of an aura that \<open>shape.ts\<close> reads.\<close>

record ShapeProperties =
  isToken :: bool
  blocksMovement :: bool
  blocksVision :: bool

record Aura =
  aura_visionSource :: bool
  aura_value :: real
  aura_dim :: real

text \<open>Calls into collaborators, as they appear in the trace.\<close>

datatype Event =
    ComputeVisibility GlobalPoint TriangulationTarget FloorId
  | DeleteFromTriangulation TriangulationTarget LocalId
  | AddToTriangulation TriangulationTarget LocalId
  | RecalculateVision FloorId
  | RecalculateMovement FloorId
  | LayerInvalidate LayerRef bool
  | InvalidateLightAllFloors
  | UpdateSectors LayerRef LocalId BoundingRect

text \<open>
  The fields of \<open>Shape\<close> the embedded methods use. A field written \<open>_name\<close> in the
  source is \<open>p_name\<close> here; \<open>id\<close> is \<open>shapeId\<close>.
\<close>

record Shape =
  shapeId :: LocalId
  floorId :: "FloorId option"
  layerName :: "LayerName option"
  p_refPoint :: GlobalPoint
  p_angle :: real
  p_center :: GlobalPoint
  p_points :: "(real \<times> real) list"
  isSnappable :: bool
  floorIteration :: int
  visionIteration :: int
  p_visionPolygon :: "(real \<times> real) list option"
  p_visionPath :: "Path2DRef option"
  p_visionBbox :: "BoundingRect option"

text \<open>
  The collaborators' state: \<open>floorState_iteration\<close> is \<open>floorState.readonly.iteration\<close>,
  \<open>getVisionIteration\<close> is \<open>visionState.getVisionIteration\<close>, \<open>visibility\<close> is what
  \<open>computeVisibility\<close> answers in this state of the triangulation, \<open>g2lx\<close> and
  \<open>g2ly\<close> are the conversions to render space in this state of the client position,
  \<open>auras i\<close> is \<open>auraSystem.getAll(i, true)\<close>, \<open>layerPoints l\<close> is the \<open>points\<close> map of
  layer \<open>l\<close> in insertion order, and \<open>path2d\<close> holds the allocated \<open>Path2D\<close> objects.
\<close>

record World =
  floorState_iteration :: int
  getVisionIteration :: "FloorId \<Rightarrow> int"
  visibility :: "GlobalPoint \<Rightarrow> TriangulationTarget \<Rightarrow> FloorId \<Rightarrow> (real \<times> real) list"
  g2lx :: "real \<Rightarrow> real"
  g2ly :: "real \<Rightarrow> real"
  getProperties :: "LocalId \<Rightarrow> ShapeProperties option"
  auras :: "LocalId \<Rightarrow> Aura list"
  getFloor :: "FloorId \<Rightarrow> Floor option"
  getLayer :: "Floor \<Rightarrow> LayerName \<Rightarrow> LayerRef option"
  layerPoints :: "LayerRef \<Rightarrow> (string \<times> LocalId set) list"
  path2d :: "Path2DRef \<Rightarrow> PathCmd list option"
  nextPath2D :: Path2DRef
  events :: "Event list"

text \<open>
  Functions used by \<open>shape.ts\<close> and defined elsewhere: the abstract method
  \<open>__center\<close> of the subclass, \<open>BoundingRect.intersect\<close> and \<open>BoundingRect.union\<close>,
  \<open>getUnitDistance\<close>, \<open>addP\<close>, and \<open>JSON.stringify\<close> on a point.
\<close>

record Env =
  c_center :: "Shape \<Rightarrow> GlobalPoint"
  intersect :: "BoundingRect \<Rightarrow> BoundingRect \<Rightarrow> BoundingRect"
  union :: "BoundingRect \<Rightarrow> BoundingRect \<Rightarrow> BoundingRect"
  getUnitDistance :: "real \<Rightarrow> real"
  addP :: "GlobalPoint \<Rightarrow> Vector \<Rightarrow> GlobalPoint"
  stringify :: "real \<times> real \<Rightarrow> string"

record PositionRepresentation =
  pos_angle :: real
  pos_points :: "(real \<times> real) list"

subsection \<open>Trace and allocation\<close>

definition emit :: "Event list \<Rightarrow> World \<Rightarrow> World" where
  "emit es w = w\<lparr>events := events w @ es\<rparr>"

text \<open>\<open>new Path2D()\<close>: a fresh object with no calls recorded on it.\<close>

definition newPath2D :: "World \<Rightarrow> Path2DRef \<times> World" where
  "newPath2D w =
     (nextPath2D w,
      w\<lparr>path2d := (path2d w)(nextPath2D w \<mapsto> []), nextPath2D := Suc (nextPath2D w)\<rparr>)"

subsection \<open>Position getters\<close>

definition get_floor :: "Shape \<Rightarrow> World \<Rightarrow> Floor option" where
  "get_floor s w = (case floorId s of None \<Rightarrow> None | Some f \<Rightarrow> getFloor w f)"

definition get_layer :: "Shape \<Rightarrow> World \<Rightarrow> LayerRef option" where
  "get_layer s w =
     (case get_floor s w of
        None \<Rightarrow> None
      | Some fl \<Rightarrow> (case layerName s of None \<Rightarrow> None | Some n \<Rightarrow> getLayer w fl n))"

subsection \<open>Bounding boxes\<close>

text \<open>The loop of \<open>getAABB\<close> over \<open>points.slice(1)\<close>: four independent tests.\<close>

fun aabbLoop :: "(real \<times> real) list \<Rightarrow> real \<times> real \<times> real \<times> real \<Rightarrow> real \<times> real \<times> real \<times> real" where
  "aabbLoop [] acc = acc"
| "aabbLoop ((px, py) # ps) (minx, maxx, miny, maxy) =
     aabbLoop ps
       (if px < minx then px else minx,
        if px > maxx then px else maxx,
        if py < miny then py else miny,
        if py > maxy then py else maxy)"

definition getAABB :: "Shape \<Rightarrow> real \<Rightarrow> BoundingRect" where
  "getAABB s delta =
     (case p_points s of
        [] \<Rightarrow> BoundingRect (p_refPoint s) 5 5
      | (fx, fy) # rest \<Rightarrow>
          (case aabbLoop rest (fx, fx, fy, fy) of
             (minx, maxx, miny, maxy) \<Rightarrow>
               BoundingRect (toGP (minx - delta) (miny - delta))
                 (maxx - minx + 2 * delta) (maxy - miny + 2 * delta)))"

text \<open>\<open>getAuraAABB(options)\<close>; the flag is \<open>options?.onlyVisionSources ?? false\<close>.\<close>

fun auraLoop :: "Env \<Rightarrow> Shape \<Rightarrow> bool \<Rightarrow> Aura list \<Rightarrow> BoundingRect \<Rightarrow> BoundingRect" where
  "auraLoop env s onlyVisionSources [] aabb = aabb"
| "auraLoop env s onlyVisionSources (aura # rest) aabb =
     (if onlyVisionSources \<and> \<not> aura_visionSource aura then auraLoop env s onlyVisionSources rest aabb
      else
        (let range = getUnitDistance env (aura_value aura + aura_dim aura) in
         auraLoop env s onlyVisionSources rest
           (union env aabb
              (BoundingRect (addP env (p_refPoint s) (Vector (- range) (- range)))
                 (range * 2) (range * 2)))))"

definition getAuraAABB :: "Env \<Rightarrow> World \<Rightarrow> Shape \<Rightarrow> bool \<Rightarrow> BoundingRect" where
  "getAuraAABB env w s onlyVisionSources =
     auraLoop env s onlyVisionSources (auras w (shapeId s)) (getAABB s 0)"

subsection \<open>The vision cache\<close>

definition resetVisionIteration :: "Shape \<Rightarrow> Shape" where
  "resetVisionIteration s = s\<lparr>visionIteration := - 1\<rparr>"

definition set_center :: "Shape \<Rightarrow> GlobalPoint \<Rightarrow> Shape" where
  "set_center s centerPoint = s\<lparr>p_center := centerPoint, p_visionPolygon := None\<rparr>"

text \<open>
  The loop of \<open>recalcVisionBbox\<close> over every point of the polygon; the second test of
  each coordinate is only made when the first one fails (\<open>else if\<close>). It only compares,
  so it is stated for any linear order.
\<close>

fun visionBboxLoop :: "('a::linorder \<times> 'a) list \<Rightarrow> 'a \<times> 'a \<times> 'a \<times> 'a \<Rightarrow> 'a \<times> 'a \<times> 'a \<times> 'a" where
  "visionBboxLoop [] acc = acc"
| "visionBboxLoop ((px, py) # ps) (leftX, rightX, topY, botY) =
     visionBboxLoop ps
       (if leftX > px then px else leftX,
        if leftX > px then rightX else if rightX < px then px else rightX,
        if topY > py then py else topY,
        if topY > py then botY else if botY < py then py else botY)"

definition recalcVisionBbox :: "Env \<Rightarrow> World \<Rightarrow> Shape \<Rightarrow> Shape" where
  "recalcVisionBbox env w s =
     (case p_visionPolygon s of
        None \<Rightarrow> s\<lparr>p_visionBbox := None\<rparr>
      | Some [] \<Rightarrow> s\<lparr>p_visionBbox := None\<rparr>
      | Some ((fx, fy) # rest) \<Rightarrow>
          (case visionBboxLoop ((fx, fy) # rest) (fx, fx, fy, fy) of
             (leftX, rightX, topY, botY) \<Rightarrow>
               s\<lparr>p_visionBbox :=
                   Some (intersect env
                     (BoundingRect (toGP leftX topY) (rightX - leftX) (botY - topY))
                     (getAuraAABB env w s True))\<rparr>))"

text \<open>The calls made on the new path: \<open>moveTo\<close> the first point, \<open>lineTo\<close> every point, \<open>closePath\<close>.\<close>

definition pathCmds :: "World \<Rightarrow> real \<times> real \<Rightarrow> (real \<times> real) list \<Rightarrow> PathCmd list" where
  "pathCmds w first polygon =
     MoveTo (g2lx w (fst first)) (g2ly w (snd first))
       # map (\<lambda>point. LineTo (g2lx w (fst point)) (g2ly w (snd point))) polygon
       @ [ClosePath]"

text \<open>
  The second half of the getter \<open>visionPolygon\<close>: a new path is allocated, then
  \<open>this._visionPolygon[0]![0]\<close> is read, which throws when the polygon has no point,
  before anything is stored.
\<close>

definition rebuildVisionPath :: "Shape \<Rightarrow> World \<Rightarrow> int \<Rightarrow> (error + Path2DRef) \<times> Shape \<times> World" where
  "rebuildVisionPath s w floorIt =
     (case newPath2D w of
        (path, w') \<Rightarrow>
          (case p_visionPolygon s of
             None \<Rightarrow> (Inl TypeError, s, w')
           | Some [] \<Rightarrow> (Inl TypeError, s, w')
           | Some (first # rest) \<Rightarrow>
               (Inr path,
                s\<lparr>p_visionPath := Some path, floorIteration := floorIt\<rparr>,
                w'\<lparr>path2d := (path2d w')(path \<mapsto> pathCmds w first (first # rest))\<rparr>)))"

definition get_visionPolygon :: "Env \<Rightarrow> Shape \<Rightarrow> World \<Rightarrow> (error + Path2DRef) \<times> Shape \<times> World" where
  "get_visionPolygon env s w =
     (case floorId s of
        None \<Rightarrow> (case newPath2D w of (path, w') \<Rightarrow> (Inr path, s, w'))
      | Some f \<Rightarrow>
          (let floorIt = floorState_iteration w;
               visionIt = getVisionIteration w f;
               visionAltered = (visionIt \<noteq> visionIteration s);
               recompute = (p_visionPolygon s = None \<or> visionAltered);
               s1 = (if recompute
                     then recalcVisionBbox env w
                            (s\<lparr>p_visionPolygon := Some (visibility w (p_center s) VISION f),
                               visionIteration := visionIt\<rparr>)
                     else s);
               w1 = (if recompute then emit [ComputeVisibility (p_center s) VISION f] w else w)
           in (case p_visionPath s1 of
                 None \<Rightarrow> rebuildVisionPath s1 w1 floorIt
               | Some cached \<Rightarrow>
                   if floorIt \<noteq> floorIteration s1 \<or> visionAltered
                   then rebuildVisionPath s1 w1 floorIt
                   else (Inr cached, s1, w1))))"

subsection \<open>Snappable points of a layer\<close>

text \<open>
  The first loop of \<open>updateLayerPoints\<close>, over the entries of the map: an entry whose
  set holds the id loses the id, or is deleted when the id was its only member.
\<close>

fun removeFromPoints :: "LocalId \<Rightarrow> (string \<times> LocalId set) list \<Rightarrow> (string \<times> LocalId set) list" where
  "removeFromPoints i [] = []"
| "removeFromPoints i ((k, ids) # rest) =
     (if i \<in> ids
      then (if card ids = 1 then removeFromPoints i rest
            else (k, ids - {i}) # removeFromPoints i rest)
      else (k, ids) # removeFromPoints i rest)"

text \<open>One round of the second loop: \<open>has\<close>, then \<open>get(strp).add(id)\<close> or \<open>set(strp, new Set([id]))\<close>.\<close>

fun addToPoints :: "string \<Rightarrow> LocalId \<Rightarrow> (string \<times> LocalId set) list \<Rightarrow> (string \<times> LocalId set) list" where
  "addToPoints strp i [] = [(strp, {i})]"
| "addToPoints strp i ((k, ids) # rest) =
     (if k = strp then (k, insert i ids) # rest else (k, ids) # addToPoints strp i rest)"

fun addAllPoints :: "Env \<Rightarrow> LocalId \<Rightarrow> (real \<times> real) list \<Rightarrow> (string \<times> LocalId set) list \<Rightarrow> (string \<times> LocalId set) list" where
  "addAllPoints env i [] m = m"
| "addAllPoints env i (point # rest) m = addAllPoints env i rest (addToPoints (stringify env point) i m)"

definition updateLayerPoints :: "Env \<Rightarrow> Shape \<Rightarrow> World \<Rightarrow> World" where
  "updateLayerPoints env s w =
     (case get_layer s w of
        None \<Rightarrow> w
      | Some l \<Rightarrow>
          w\<lparr>layerPoints := (layerPoints w)
              (l := addAllPoints env (shapeId s) (p_points s)
                      (removeFromPoints (shapeId s) (layerPoints w l)))\<rparr>)"

subsection \<open>Invalidation and the setters\<close>

definition invalidate :: "Shape \<Rightarrow> World \<Rightarrow> bool \<Rightarrow> (error + unit) \<times> World" where
  "invalidate s w skipLightUpdate =
     (case layerName s of
        None \<Rightarrow> (Inr (), w)
      | Some n \<Rightarrow>
          (case get_layer s w of
             None \<Rightarrow> (Inl TypeError, w)
           | Some l \<Rightarrow> (Inr (), emit [LayerInvalidate l skipLightUpdate] w)))"

definition invalidatePoints :: "Env \<Rightarrow> Shape \<Rightarrow> World \<Rightarrow> World" where
  "invalidatePoints env s w =
     (let w1 = (case get_layer s w of
                  None \<Rightarrow> w
                | Some l \<Rightarrow> emit [UpdateSectors l (shapeId s) (getAuraAABB env w s False)] w)
      in if isSnappable s then updateLayerPoints env s w1 else w1)"

text \<open>
  The tail shared by the \<open>refPoint\<close> setter and \<open>setPositionRepresentation\<close>: the draw
  layer of a token's floor is invalidated.
\<close>

definition invalidateDrawLayerOfToken :: "Shape \<Rightarrow> World \<Rightarrow> World" where
  "invalidateDrawLayerOfToken s w =
     (case getProperties w (shapeId s) of
        None \<Rightarrow> w
      | Some props \<Rightarrow>
          if isToken props
          then (case get_floor s w of
                  None \<Rightarrow> w
                | Some fl \<Rightarrow>
                    (case getLayer w fl Draw of
                       None \<Rightarrow> w
                     | Some l \<Rightarrow> emit [LayerInvalidate l True] w))
          else w)"

definition set_refPoint :: "Env \<Rightarrow> Shape \<Rightarrow> World \<Rightarrow> GlobalPoint \<Rightarrow> Shape \<times> World" where
  "set_refPoint env s w point =
     (let s1 = s\<lparr>p_refPoint := point\<rparr>;
          s2 = s1\<lparr>p_center := c_center env s1\<rparr>;
          s3 = resetVisionIteration s2;
          w1 = invalidatePoints env s3 w
      in (s3, invalidateDrawLayerOfToken s3 w1))"

definition set_angle :: "Env \<Rightarrow> Shape \<Rightarrow> World \<Rightarrow> real \<Rightarrow> Shape \<times> World" where
  "set_angle env s w angle =
     (let s1 = s\<lparr>p_angle := angle\<rparr> in (s1, invalidatePoints env s1 w))"

subsection \<open>Notifying the vision state\<close>

text \<open>
  \<open>getProperties(this.id)!\<close> and \<open>this.layer!\<close> (in \<open>invalidate\<close>) are non-null
  assertions: a property read on \<open>undefined\<close> throws there.
\<close>

definition updateShapeVision :: "Shape \<Rightarrow> World \<Rightarrow> bool \<Rightarrow> bool \<Rightarrow> (error + unit) \<times> World" where
  "updateShapeVision s w alteredMovement alteredVision =
     (case getProperties w (shapeId s) of
        None \<Rightarrow> (Inl TypeError, w)
      | Some props \<Rightarrow>
          (let w1 = (if blocksVision props \<and> \<not> alteredVision
                     then emit ([DeleteFromTriangulation VISION (shapeId s),
                                 AddToTriangulation VISION (shapeId s)]
                                @ (case floorId s of
                                     None \<Rightarrow> []
                                   | Some f \<Rightarrow> [RecalculateVision f])) w
                     else w)
           in (case invalidate s w1 True of
                 (Inl e, w2) \<Rightarrow> (Inl e, w2)
               | (Inr u, w2) \<Rightarrow>
                   (let w3 = emit [InvalidateLightAllFloors] w2
                    in (Inr (),
                        if blocksMovement props \<and> \<not> alteredMovement
                        then emit ([DeleteFromTriangulation MOVEMENT (shapeId s),
                                    AddToTriangulation MOVEMENT (shapeId s)]
                                   @ (case floorId s of
                                        None \<Rightarrow> []
                                      | Some f \<Rightarrow> [RecalculateMovement f])) w3
                        else w3)))))"

definition setPositionRepresentation ::
  "Env \<Rightarrow> Shape \<Rightarrow> World \<Rightarrow> PositionRepresentation \<Rightarrow> (error + unit) \<times> Shape \<times> World" where
  "setPositionRepresentation env s w position =
     (case pos_points position of
        [] \<Rightarrow> (Inr (), s, w)
      | first # rest \<Rightarrow>
          (let s1 = s\<lparr>p_refPoint := toGP (fst first) (snd first)\<rparr>;
               s2 = s1\<lparr>p_center := c_center env s1\<rparr>
           in (case set_angle env s2 w (pos_angle position) of
                 (s3, w3) \<Rightarrow>
                   (let s4 = resetVisionIteration s3
                    in (case updateShapeVision s4 w3 False False of
                          (Inl e, w4) \<Rightarrow> (Inl e, s4, w4)
                        | (Inr u, w4) \<Rightarrow> (Inr (), s4, invalidateDrawLayerOfToken s4 w4))))))"

subsection \<open>A concrete scene\<close>

text \<open>
  The instances of the theorems below are taken in this scene: a snappable token with
  id 1 on the layer \<open>tokens\<close> of floor 0, whose centre is its reference point, with
  one aura that is a vision source and one that is not; a second shape with id 2 shares
  the layer. Rectangles are intersected and united coordinate-wise.
\<close>

fun exampleIntersect :: "BoundingRect \<Rightarrow> BoundingRect \<Rightarrow> BoundingRect" where
  "exampleIntersect (BoundingRect (toGP x1 y1) w1 h1) (BoundingRect (toGP x2 y2) w2 h2) =
     BoundingRect (toGP (max x1 x2) (max y1 y2))
       (min (x1 + w1) (x2 + w2) - max x1 x2) (min (y1 + h1) (y2 + h2) - max y1 y2)"

fun exampleUnion :: "BoundingRect \<Rightarrow> BoundingRect \<Rightarrow> BoundingRect" where
  "exampleUnion (BoundingRect (toGP x1 y1) w1 h1) (BoundingRect (toGP x2 y2) w2 h2) =
     BoundingRect (toGP (min x1 x2) (min y1 y2))
       (max (x1 + w1) (x2 + w2) - min x1 x2) (max (y1 + h1) (y2 + h2) - min y1 y2)"

fun exampleAddP :: "GlobalPoint \<Rightarrow> Vector \<Rightarrow> GlobalPoint" where
  "exampleAddP (toGP px py) (Vector dx dy) = toGP (px + dx) (py + dy)"

definition exampleStringify :: "real \<times> real \<Rightarrow> string" where
  "exampleStringify point =
     (if point = (0, 0) then ''[0,0]'' else if point = (1, 0) then ''[1,0]'' else ''[5,5]'')"

definition exampleEnv :: Env where
  "exampleEnv =
     \<lparr>c_center = p_refPoint, intersect = exampleIntersect, union = exampleUnion,
      getUnitDistance = (\<lambda>r. 10 * r), addP = exampleAddP, stringify = exampleStringify\<rparr>"

definition exampleWorld :: World where
  "exampleWorld =
     \<lparr>floorState_iteration = 0,
      getVisionIteration = (\<lambda>f. 0),
      visibility = (\<lambda>origin target f. [(- 10, - 10), (10, - 10), (10, 10), (- 10, 10)]),
      g2lx = (\<lambda>c. c), g2ly = (\<lambda>c. c),
      getProperties = (\<lambda>i. if i = 1
                             then Some \<lparr>isToken = True, blocksMovement = True, blocksVision = True\<rparr>
                             else None),
      auras = (\<lambda>i. [\<lparr>aura_visionSource = True, aura_value = 1, aura_dim = 1\<rparr>,
                     \<lparr>aura_visionSource = False, aura_value = 5, aura_dim = 0\<rparr>]),
      getFloor = (\<lambda>f. if f = 0 then Some 0 else None),
      getLayer = (\<lambda>fl n. if n = Draw then Some 1
                         else if n = OtherLayer ''tokens'' then Some 0 else None),
      layerPoints = (\<lambda>l. if l = 0
                           then [(''[0,0]'', {1, 2}), (''[5,5]'', {1}), (''[7,7]'', {2})]
                           else []),
      path2d = (\<lambda>r. None),
      nextPath2D = 0,
      events = []\<rparr>"

text \<open>The token as constructed: nothing cached yet.\<close>

definition exampleShape :: Shape where
  "exampleShape =
     \<lparr>shapeId = 1, floorId = Some 0, layerName = Some (OtherLayer ''tokens''),
      p_refPoint = toGP 0 0, p_angle = 0, p_center = toGP 0 0,
      p_points = [(0, 0), (1, 0)], isSnappable = True,
      floorIteration = - 1, visionIteration = - 1,
      p_visionPolygon = None, p_visionPath = None, p_visionBbox = None\<rparr>"

text \<open>The token and the world after a first read of \<open>visionPolygon\<close>.\<close>

definition cachedShape :: Shape where
  "cachedShape =
     exampleShape
       \<lparr>floorIteration := 0, visionIteration := 0,
        p_visionPolygon := Some [(- 10, - 10), (10, - 10), (10, 10), (- 10, 10)],
        p_visionPath := Some 0,
        p_visionBbox := Some (BoundingRect (toGP (- 10) (- 10)) 20 20)\<rparr>"

definition cachedWorld :: World where
  "cachedWorld =
     exampleWorld
       \<lparr>path2d := [0 \<mapsto> [MoveTo (- 10) (- 10), LineTo (- 10) (- 10), LineTo 10 (- 10),
                          LineTo 10 10, LineTo (- 10) 10, ClosePath]],
        nextPath2D := 1,
        events := [ComputeVisibility (toGP 0 0) VISION 0]\<rparr>"

text \<open>A shape that has not been placed on a floor.\<close>

definition floorlessShape :: Shape where
  "floorlessShape = exampleShape\<lparr>floorId := None, layerName := None\<rparr>"



section \<open>Auxiliary facts\<close>

lemmas scene_defs = exampleShape_def exampleWorld_def exampleEnv_def cachedShape_def
  cachedWorld_def floorlessShape_def

lemmas read_defs = get_visionPolygon_def Let_def recalcVisionBbox_def getAuraAABB_def
  getAABB_def rebuildVisionPath_def newPath2D_def pathCmds_def emit_def

lemmas setter_defs = set_angle_def set_center_def invalidatePoints_def updateLayerPoints_def
  get_layer_def get_floor_def

subsection \<open>The trace\<close>









subsection \<open>What a read of the vision polygon touches\<close>

lemma recalcVisionBbox_fields:
  "floorId (recalcVisionBbox env w s) = floorId s"
  "floorIteration (recalcVisionBbox env w s) = floorIteration s"
  "visionIteration (recalcVisionBbox env w s) = visionIteration s"
  "p_visionPolygon (recalcVisionBbox env w s) = p_visionPolygon s"
  "p_visionPath (recalcVisionBbox env w s) = p_visionPath s"
  by (simp_all add: recalcVisionBbox_def split: option.splits list.splits prod.splits)

lemma rebuildVisionPath_fields:
  "events (snd (snd (rebuildVisionPath s w fi))) = events w"
  "p_visionPolygon (fst (snd (rebuildVisionPath s w fi))) = p_visionPolygon s"
  "p_visionBbox (fst (snd (rebuildVisionPath s w fi))) = p_visionBbox s"
  "visionIteration (fst (snd (rebuildVisionPath s w fi))) = visionIteration s"
  by (simp_all add: rebuildVisionPath_def newPath2D_def split: option.splits list.splits prod.splits)

lemma rebuildVisionPath_Inr:
  assumes "rebuildVisionPath s w fi = (Inr r, s1, w1)"
  shows "s1 = s\<lparr>p_visionPath := Some r, floorIteration := fi\<rparr>"
  using assms
  by (auto simp: rebuildVisionPath_def newPath2D_def split: option.splits list.splits)

lemma get_visionPolygon_floor:
  assumes "floorId s = Some f"
  shows "get_visionPolygon env s w =
     (let floorIt = floorState_iteration w;
          visionIt = getVisionIteration w f;
          visionAltered = (visionIt \<noteq> visionIteration s);
          recompute = (p_visionPolygon s = None \<or> visionAltered);
          s1 = (if recompute
                then recalcVisionBbox env w
                       (s\<lparr>p_visionPolygon := Some (visibility w (p_center s) VISION f),
                          visionIteration := visionIt\<rparr>)
                else s);
          w1 = (if recompute then emit [ComputeVisibility (p_center s) VISION f] w else w)
      in (case p_visionPath s1 of
            None \<Rightarrow> rebuildVisionPath s1 w1 floorIt
          | Some cached \<Rightarrow>
              if floorIt \<noteq> floorIteration s1 \<or> visionAltered
              then rebuildVisionPath s1 w1 floorIt
              else (Inr cached, s1, w1)))"
  unfolding get_visionPolygon_def assms option.case by (rule refl)

text \<open>After a read that returned a path, the cache is up to date with the world of that read.\<close>

lemma visionPolygon_post:
  assumes "floorId s = Some f" and "get_visionPolygon env s w = (Inr r, s1, w1)"
  shows "floorId s1 = Some f \<and> visionIteration s1 = getVisionIteration w f
       \<and> p_visionPolygon s1 \<noteq> None \<and> p_visionPath s1 = Some r
       \<and> floorIteration s1 = floorState_iteration w"
proof -
  define visionAltered where "visionAltered = (getVisionIteration w f \<noteq> visionIteration s)"
  define recompute where "recompute = (p_visionPolygon s = None \<or> visionAltered)"
  define sa where "sa = (if recompute
                then recalcVisionBbox env w
                       (s\<lparr>p_visionPolygon := Some (visibility w (p_center s) VISION f),
                          visionIteration := getVisionIteration w f\<rparr>)
                else s)"
  define wa where "wa = (if recompute then emit [ComputeVisibility (p_center s) VISION f] w else w)"
  have unf: "get_visionPolygon env s w =
      (case p_visionPath sa of
            None \<Rightarrow> rebuildVisionPath sa wa (floorState_iteration w)
          | Some cached \<Rightarrow>
              if floorState_iteration w \<noteq> floorIteration sa \<or> visionAltered
              then rebuildVisionPath sa wa (floorState_iteration w)
              else (Inr cached, sa, wa))"
    unfolding get_visionPolygon_floor [OF assms(1)] Let_def sa_def wa_def recompute_def visionAltered_def
    by (rule refl)
  have sa: "floorId sa = Some f" "visionIteration sa = getVisionIteration w f"
      "p_visionPolygon sa \<noteq> None"
    using assms(1) by (auto simp: sa_def recompute_def visionAltered_def recalcVisionBbox_fields)
  have res: "(case p_visionPath sa of
            None \<Rightarrow> rebuildVisionPath sa wa (floorState_iteration w)
          | Some cached \<Rightarrow>
              if floorState_iteration w \<noteq> floorIteration sa \<or> visionAltered
              then rebuildVisionPath sa wa (floorState_iteration w)
              else (Inr cached, sa, wa)) = (Inr r, s1, w1)"
    using assms(2) unfolding unf .
  show ?thesis
  proof (cases "p_visionPath sa")
    case None
    with res have "rebuildVisionPath sa wa (floorState_iteration w) = (Inr r, s1, w1)"
      by simp
    from rebuildVisionPath_Inr [OF this] sa show ?thesis by simp
  next
    case (Some cached)
    show ?thesis
    proof (cases "floorState_iteration w \<noteq> floorIteration sa \<or> visionAltered")
      case True
      with Some res have "rebuildVisionPath sa wa (floorState_iteration w) = (Inr r, s1, w1)"
        by simp
      from rebuildVisionPath_Inr [OF this] sa show ?thesis by simp
    next
      case False
      with Some res have "r = cached" "s1 = sa" by auto
      with Some False sa show ?thesis by simp
    qed
  qed
qed

lemma get_visionPolygon_recompute:
  assumes "floorId s = Some f"
      and "p_visionPolygon s = None \<or> getVisionIteration w f \<noteq> visionIteration s"
  shows "events (snd (snd (get_visionPolygon env s w)))
           = events w @ [ComputeVisibility (p_center s) VISION f]"
    and "p_visionPolygon (fst (snd (get_visionPolygon env s w)))
           = Some (visibility w (p_center s) VISION f)"
    and "visionIteration (fst (snd (get_visionPolygon env s w))) = getVisionIteration w f"
proof -
  have stale: "(p_visionPolygon s = None \<or> getVisionIteration w f \<noteq> visionIteration s) = True"
    using assms(2) by simp
  show "events (snd (snd (get_visionPolygon env s w)))
           = events w @ [ComputeVisibility (p_center s) VISION f]"
    and "p_visionPolygon (fst (snd (get_visionPolygon env s w)))
           = Some (visibility w (p_center s) VISION f)"
    and "visionIteration (fst (snd (get_visionPolygon env s w))) = getVisionIteration w f"
    unfolding get_visionPolygon_floor [OF assms(1)] Let_def stale if_True
    by (simp_all add: emit_def rebuildVisionPath_fields recalcVisionBbox_fields split: option.splits)
qed

lemma get_visionPolygon_fresh:
  assumes "floorId s = Some f"
      and "getVisionIteration w f = visionIteration s" and "p_visionPolygon s \<noteq> None"
  shows "events (snd (snd (get_visionPolygon env s w))) = events w"
    and "p_visionPolygon (fst (snd (get_visionPolygon env s w))) = p_visionPolygon s"
    and "p_visionBbox (fst (snd (get_visionPolygon env s w))) = p_visionBbox s"
    and "visionIteration (fst (snd (get_visionPolygon env s w))) = visionIteration s"
proof -
  have keep: "(p_visionPolygon s = None \<or> getVisionIteration w f \<noteq> visionIteration s) = False"
    using assms(2,3) by simp
  show "events (snd (snd (get_visionPolygon env s w))) = events w"
    and "p_visionPolygon (fst (snd (get_visionPolygon env s w))) = p_visionPolygon s"
    and "p_visionBbox (fst (snd (get_visionPolygon env s w))) = p_visionBbox s"
    and "visionIteration (fst (snd (get_visionPolygon env s w))) = visionIteration s"
    unfolding get_visionPolygon_floor [OF assms(1)] Let_def keep if_False
    by (simp_all add: rebuildVisionPath_fields split: option.splits)
qed

subsection \<open>What the setters change in the shape\<close>

lemma set_refPoint_shape:
  "fst (set_refPoint env s w point) =
     s\<lparr>p_refPoint := point, p_center := c_center env (s\<lparr>p_refPoint := point\<rparr>),
       visionIteration := - 1\<rparr>"
  by (simp add: set_refPoint_def resetVisionIteration_def Let_def)

lemma set_angle_shape: "fst (set_angle env s w angle) = s\<lparr>p_angle := angle\<rparr>"
  by (simp add: set_angle_def Let_def)

subsection \<open>The loop of the vision bounding box\<close>








subsection \<open>The two loops of the layer points\<close>

lemma card_one_members:
  assumes "card ids = 1" and "i \<in> ids" and "j \<in> ids"
  shows "j = i"
proof -
  from assms(1) obtain a where "ids = {a}"
    by (rule card_1_singletonE)
  with assms(2,3) show ?thesis by simp
qed

lemma removeFromPoints_absent:
  "(k, ids) \<in> set (removeFromPoints i m) \<Longrightarrow> i \<notin> ids"
  by (induction i m rule: removeFromPoints.induct) (auto split: if_splits)

lemma removeFromPoints_empty:
  "(k, {}) \<in> set (removeFromPoints i m) \<Longrightarrow> (k, {}) \<in> set m"
proof (induction i m rule: removeFromPoints.induct)
  case (1 i)
  then show ?case by simp
next
  case (2 i k' ids rest)
  have "ids - {i} \<noteq> {}" if "i \<in> ids" "card ids \<noteq> 1"
  proof
    assume "ids - {i} = {}"
    with that(1) have "ids = {i}" by auto
    with that(2) show False by simp
  qed
  with 2 show ?case by (auto split: if_splits)
qed

lemma removeFromPoints_keys:
  "set (map fst (removeFromPoints i m)) \<subseteq> set (map fst m)"
  by (induction i m rule: removeFromPoints.induct) auto

lemma removeFromPoints_distinct:
  "distinct (map fst m) \<Longrightarrow> distinct (map fst (removeFromPoints i m))"
proof (induction i m rule: removeFromPoints.induct)
  case (1 i)
  then show ?case by simp
next
  case (2 i k ids rest)
  moreover have "k \<notin> set (map fst (removeFromPoints i rest))" if "k \<notin> set (map fst rest)"
    using that removeFromPoints_keys [of i rest] by blast
  ultimately show ?case by auto
qed

lemma removeFromPoints_others:
  assumes "j \<noteq> i"
  shows "(\<exists>ids. (k, ids) \<in> set (removeFromPoints i m) \<and> j \<in> ids)
           = (\<exists>ids. (k, ids) \<in> set m \<and> j \<in> ids)"
  using assms
proof (induction i m rule: removeFromPoints.induct)
  case (1 i)
  then show ?case by simp
next
  case (2 i' k' ids' rest)
  show ?case
  proof (cases "i' \<in> ids'")
    case False
    with 2 show ?thesis by auto
  next
    case True
    show ?thesis
    proof (cases "card ids' = 1")
      case one: True
      have "j \<notin> ids'"
        using card_one_members [OF one True] "2.prems" by blast
      with 2 True one show ?thesis by auto
    next
      case False
      with 2 True show ?thesis by auto
    qed
  qed
qed

lemma addToPoints_member:
  "(\<exists>ids. (k, ids) \<in> set (addToPoints strp i m) \<and> j \<in> ids)
     = ((\<exists>ids. (k, ids) \<in> set m \<and> j \<in> ids) \<or> (k = strp \<and> j = i))"
  by (induction strp i m rule: addToPoints.induct) auto

lemma addToPoints_empty:
  "(k, {}) \<in> set (addToPoints strp i m) \<Longrightarrow> (k, {}) \<in> set m"
  by (induction strp i m rule: addToPoints.induct) (auto split: if_splits)

lemma addToPoints_keys:
  "set (map fst (addToPoints strp i m)) = insert strp (set (map fst m))"
  by (induction strp i m rule: addToPoints.induct) auto

lemma addToPoints_distinct:
  "distinct (map fst m) \<Longrightarrow> distinct (map fst (addToPoints strp i m))"
proof (induction strp i m rule: addToPoints.induct)
  case (1 strp i)
  then show ?case by simp
next
  case (2 strp i k ids rest)
  then show ?case
    using addToPoints_keys [of strp i rest] by auto
qed

lemma addAllPoints_member:
  "(\<exists>ids. (k, ids) \<in> set (addAllPoints env i pts m) \<and> j \<in> ids)
     = ((\<exists>ids. (k, ids) \<in> set m \<and> j \<in> ids) \<or> (k \<in> stringify env ` set pts \<and> j = i))"
proof (induction pts arbitrary: m)
  case Nil
  then show ?case by simp
next
  case (Cons p pts)
  show ?case
    unfolding addAllPoints.simps Cons.IH addToPoints_member by auto
qed

lemma addAllPoints_empty:
  "(k, {}) \<in> set (addAllPoints env i pts m) \<Longrightarrow> (k, {}) \<in> set m"
  by (induction pts arbitrary: m) (auto dest: addToPoints_empty)

lemma addAllPoints_distinct:
  "distinct (map fst m) \<Longrightarrow> distinct (map fst (addAllPoints env i pts m))"
  by (induction pts arbitrary: m) (simp_all add: addToPoints_distinct)

lemma updateLayerPoints_layer:
  assumes "get_layer s w = Some l"
  shows "layerPoints (updateLayerPoints env s w) l =
           addAllPoints env (shapeId s) (p_points s) (removeFromPoints (shapeId s) (layerPoints w l))"
  using assms by (simp add: updateLayerPoints_def)

section \<open>Properties\<close>

subsection \<open>Setters and the cache\<close>

text \<open>
  C1, as the code has it. For a shape with a floor: the \<open>center\<close> setter clears the
  cached polygon, so the next read of \<open>visionPolygon\<close> calls \<open>computeVisibility\<close> (with
  the new centre); the \<open>refPoint\<close> setter stores the iteration \<open>-1\<close>, so the next read
  calls \<open>computeVisibility\<close> whenever the floor's vision iteration is not negative; the
  \<open>angle\<close> setter changes the angle and nothing else of the shape, so the vision cache
  is as it was, and a read that finds the stored iteration equal to the floor's and a
  polygon cached does not call \<open>computeVisibility\<close>. The polygon is computed from the
  centre, which the angle does not move.
\<close>

theorem setters_and_vision_cache:
  assumes "floorId s = Some f"
  shows "events (snd (snd (get_visionPolygon env (set_center s c) w)))
           = events w @ [ComputeVisibility c VISION f]
       \<and> (0 \<le> getVisionIteration w f \<longrightarrow>
            events (snd (snd (get_visionPolygon env (fst (set_refPoint env s w0 p)) w)))
              = events w @ [ComputeVisibility (p_center (fst (set_refPoint env s w0 p))) VISION f])
       \<and> fst (set_angle env s w0 a) = s\<lparr>p_angle := a\<rparr>
       \<and> (getVisionIteration w f = visionIteration s \<and> p_visionPolygon s \<noteq> None \<longrightarrow>
            events (snd (snd (get_visionPolygon env (fst (set_angle env s w0 a)) w))) = events w)"
proof (intro conjI impI)
  have "floorId (set_center s c) = Some f" "p_visionPolygon (set_center s c) = None"
    "p_center (set_center s c) = c"
    using assms by (simp_all add: set_center_def)
  with get_visionPolygon_recompute(1) [of "set_center s c" f w env]
  show "events (snd (snd (get_visionPolygon env (set_center s c) w)))
           = events w @ [ComputeVisibility c VISION f]"
    by simp
next
  assume nonneg: "0 \<le> getVisionIteration w f"
  let ?s = "fst (set_refPoint env s w0 p)"
  have "floorId ?s = Some f" "getVisionIteration w f \<noteq> visionIteration ?s"
    using assms nonneg by (simp_all add: set_refPoint_shape)
  with get_visionPolygon_recompute(1) [of ?s f w env]
  show "events (snd (snd (get_visionPolygon env ?s w)))
          = events w @ [ComputeVisibility (p_center ?s) VISION f]"
    by simp
next
  show "fst (set_angle env s w0 a) = s\<lparr>p_angle := a\<rparr>"
    by (rule set_angle_shape)
next
  assume fresh: "getVisionIteration w f = visionIteration s \<and> p_visionPolygon s \<noteq> None"
  let ?s = "fst (set_angle env s w0 a)"
  have "floorId ?s = Some f" "getVisionIteration w f = visionIteration ?s"
    "p_visionPolygon ?s \<noteq> None"
    using assms fresh by (simp_all add: set_angle_shape)
  then show "events (snd (snd (get_visionPolygon env ?s w))) = events w"
    by (rule get_visionPolygon_fresh(1))
qed

text \<open>
  In the scene: after a first read, each of the two setters that move the origin makes
  the next read compute again, and the \<open>angle\<close> setter does not.
\<close>

theorem setters_and_vision_cache_witness:
  "floorId cachedShape = Some 0
   \<and> 0 \<le> getVisionIteration cachedWorld 0
   \<and> getVisionIteration cachedWorld 0 = visionIteration cachedShape
   \<and> p_visionPolygon cachedShape \<noteq> None
   \<and> events (snd (snd (get_visionPolygon exampleEnv (set_center cachedShape (toGP 3 4)) cachedWorld)))
       = [ComputeVisibility (toGP 0 0) VISION 0, ComputeVisibility (toGP 3 4) VISION 0]
   \<and> events (snd (snd (get_visionPolygon exampleEnv
                 (fst (set_refPoint exampleEnv cachedShape cachedWorld (toGP 3 4))) cachedWorld)))
       = [ComputeVisibility (toGP 0 0) VISION 0, ComputeVisibility (toGP 3 4) VISION 0]
   \<and> fst (set_angle exampleEnv cachedShape cachedWorld 1) = cachedShape\<lparr>p_angle := 1\<rparr>
   \<and> events (snd (snd (get_visionPolygon exampleEnv
                 (fst (set_angle exampleEnv cachedShape cachedWorld 1)) cachedWorld)))
       = [ComputeVisibility (toGP 0 0) VISION 0]"
proof -
  have h: "floorId cachedShape = Some 0"
    by (simp add: scene_defs)
  have pre: "0 \<le> getVisionIteration cachedWorld 0"
    "getVisionIteration cachedWorld 0 = visionIteration cachedShape"
    "p_visionPolygon cachedShape \<noteq> None"
    by (simp_all add: scene_defs)
  have e: "events cachedWorld = [ComputeVisibility (toGP 0 0) VISION 0]"
    by (simp add: scene_defs)
  have c: "p_center (fst (set_refPoint exampleEnv cachedShape cachedWorld (toGP 3 4))) = toGP 3 4"
    by (simp add: set_refPoint_shape exampleEnv_def)
  note t = setters_and_vision_cache
    [OF h, of exampleEnv "toGP 3 4" cachedWorld cachedWorld "toGP 3 4" 1]
  have t1: "events (snd (snd (get_visionPolygon exampleEnv (set_center cachedShape (toGP 3 4)) cachedWorld)))
       = [ComputeVisibility (toGP 0 0) VISION 0, ComputeVisibility (toGP 3 4) VISION 0]"
    using t [THEN conjunct1] e by simp
  have t2: "events (snd (snd (get_visionPolygon exampleEnv
                 (fst (set_refPoint exampleEnv cachedShape cachedWorld (toGP 3 4))) cachedWorld)))
       = [ComputeVisibility (toGP 0 0) VISION 0, ComputeVisibility (toGP 3 4) VISION 0]"
    using t [THEN conjunct2, THEN conjunct1, THEN mp, OF pre(1)] e c by simp
  have t3: "fst (set_angle exampleEnv cachedShape cachedWorld 1) = cachedShape\<lparr>p_angle := 1\<rparr>"
    by (rule t [THEN conjunct2, THEN conjunct2, THEN conjunct1])
  have t4: "events (snd (snd (get_visionPolygon exampleEnv
                 (fst (set_angle exampleEnv cachedShape cachedWorld 1)) cachedWorld)))
       = [ComputeVisibility (toGP 0 0) VISION 0]"
    using t [THEN conjunct2, THEN conjunct2, THEN conjunct2, THEN mp, OF conjI, OF pre(2,3)] e
    by simp
  from h pre t1 t2 t3 t4 show ?thesis
    by (intro conjI)
qed

text \<open>
  C1 as stated fails. The cached token is given the angle 1 through the setter and is
  read in the world the setter leaves: the read returns the path object 0 that was
  cached before, and the trace holds no call of \<open>computeVisibility\<close> beyond the one of
  the first read. And a shape without a floor is given a new centre: its next read
  calls nothing.
\<close>

theorem angle_setter_keeps_cache_counterexample:
  "fst (set_angle exampleEnv cachedShape cachedWorld 1) = cachedShape\<lparr>p_angle := 1\<rparr>
   \<and> fst (get_visionPolygon exampleEnv (fst (set_angle exampleEnv cachedShape cachedWorld 1))
           (snd (set_angle exampleEnv cachedShape cachedWorld 1))) = Inr 0
   \<and> events (snd (snd (get_visionPolygon exampleEnv
                 (fst (set_angle exampleEnv cachedShape cachedWorld 1))
                 (snd (set_angle exampleEnv cachedShape cachedWorld 1)))))
       = events (snd (set_angle exampleEnv cachedShape cachedWorld 1))
   \<and> ComputeVisibility (toGP 0 0) VISION 0
       \<notin> set (drop 1 (events (snd (snd (get_visionPolygon exampleEnv
                 (fst (set_angle exampleEnv cachedShape cachedWorld 1))
                 (snd (set_angle exampleEnv cachedShape cachedWorld 1)))))))
   \<and> events (snd (snd (get_visionPolygon exampleEnv
                 (set_center floorlessShape (toGP 3 3)) exampleWorld))) = []"
  by (simp add: scene_defs setter_defs read_defs)

subsection \<open>Reading the vision polygon\<close>

text \<open>
  C2. For a shape with a floor, when a read of \<open>visionPolygon\<close> has returned the path
  object \<open>r\<close>, a second read of the shape it left, in any world with the same vision
  iteration of that floor and the same floor redraw iteration, returns the same object
  \<open>r\<close> and changes neither the shape (polygon, bounding box, stored iterations) nor the
  world (no call, no allocation).
\<close>

theorem visionPolygon_referential_stability:
  assumes "floorId s = Some f"
      and "get_visionPolygon env s w = (Inr r, s1, w1)"
      and "getVisionIteration w2 f = getVisionIteration w f"
      and "floorState_iteration w2 = floorState_iteration w"
  shows "get_visionPolygon env s1 w2 = (Inr r, s1, w2)"
proof -
  from visionPolygon_post [OF assms(1,2)]
  have post: "floorId s1 = Some f" "visionIteration s1 = getVisionIteration w f"
    "p_visionPolygon s1 \<noteq> None" "p_visionPath s1 = Some r"
    "floorIteration s1 = floorState_iteration w"
    by simp_all
  have fresh: "\<not> (p_visionPolygon s1 = None \<or> getVisionIteration w2 f \<noteq> visionIteration s1)"
    using post assms(3) by simp
  have same: "\<not> (floorState_iteration w2 \<noteq> floorIteration s1
                \<or> getVisionIteration w2 f \<noteq> visionIteration s1)"
    using post assms(3,4) by simp
  show ?thesis
    unfolding get_visionPolygon_floor [OF post(1)] Let_def
    by (simp only: fresh same if_False post(4) option.case)
qed

theorem visionPolygon_referential_stability_witness:
  "floorId exampleShape = Some 0
   \<and> get_visionPolygon exampleEnv exampleShape exampleWorld = (Inr 0, cachedShape, cachedWorld)
   \<and> get_visionPolygon exampleEnv cachedShape cachedWorld = (Inr 0, cachedShape, cachedWorld)"
proof -
  have h1: "floorId exampleShape = Some 0"
    by (simp add: exampleShape_def)
  have h2: "get_visionPolygon exampleEnv exampleShape exampleWorld = (Inr 0, cachedShape, cachedWorld)"
    by (simp add: scene_defs read_defs)
  have h3: "getVisionIteration cachedWorld 0 = getVisionIteration exampleWorld 0"
    by (simp add: scene_defs)
  have h4: "floorState_iteration cachedWorld = floorState_iteration exampleWorld"
    by (simp add: scene_defs)
  from visionPolygon_referential_stability [OF h1 h2 h3 h4] h1 h2 show ?thesis
    by simp
qed

text \<open>
  C3. For a shape with a floor \<open>f\<close>: a read that finds the vision iteration of \<open>f\<close>
  different from the stored one calls \<open>computeVisibility\<close> once, with the shape's
  centre, the target \<open>VISION\<close> and \<open>f\<close>, stores the polygon it answers and stores the
  iteration it found (also when the path cannot be built afterwards); a read that finds
  the two equal and a polygon cached calls nothing and leaves polygon, bounding box and
  stored iteration as they were. Only the counter of the shape's own floor is looked at:
  when the counter of another floor \<open>f'\<close> is set to any value, a shape whose cache is
  up to date still calls nothing.
\<close>

theorem visionPolygon_recomputes_iff_stale:
  assumes "floorId s = Some f"
  shows "(getVisionIteration w f \<noteq> visionIteration s \<longrightarrow>
            events (snd (snd (get_visionPolygon env s w)))
              = events w @ [ComputeVisibility (p_center s) VISION f]
          \<and> p_visionPolygon (fst (snd (get_visionPolygon env s w)))
              = Some (visibility w (p_center s) VISION f)
          \<and> visionIteration (fst (snd (get_visionPolygon env s w))) = getVisionIteration w f)
       \<and> (getVisionIteration w f = visionIteration s \<and> p_visionPolygon s \<noteq> None \<longrightarrow>
            events (snd (snd (get_visionPolygon env s w))) = events w
          \<and> p_visionPolygon (fst (snd (get_visionPolygon env s w))) = p_visionPolygon s
          \<and> p_visionBbox (fst (snd (get_visionPolygon env s w))) = p_visionBbox s
          \<and> visionIteration (fst (snd (get_visionPolygon env s w))) = visionIteration s)
       \<and> (f' \<noteq> f \<and> getVisionIteration w f = visionIteration s \<and> p_visionPolygon s \<noteq> None \<longrightarrow>
            events (snd (snd (get_visionPolygon env s
                       (w\<lparr>getVisionIteration := (getVisionIteration w)(f' := n)\<rparr>)))) = events w)"
proof (intro conjI impI)
  assume stale: "getVisionIteration w f \<noteq> visionIteration s"
  then have "p_visionPolygon s = None \<or> getVisionIteration w f \<noteq> visionIteration s"
    by simp
  note r = get_visionPolygon_recompute [OF assms this, of env]
  show "events (snd (snd (get_visionPolygon env s w)))
              = events w @ [ComputeVisibility (p_center s) VISION f]"
    by (rule r(1))
  show "p_visionPolygon (fst (snd (get_visionPolygon env s w)))
              = Some (visibility w (p_center s) VISION f)"
    by (rule r(2))
  show "visionIteration (fst (snd (get_visionPolygon env s w))) = getVisionIteration w f"
    by (rule r(3))
next
  assume fresh: "getVisionIteration w f = visionIteration s \<and> p_visionPolygon s \<noteq> None"
  note k = get_visionPolygon_fresh [OF assms conjunct1 [OF fresh] conjunct2 [OF fresh], of env]
  show "events (snd (snd (get_visionPolygon env s w))) = events w"
    by (rule k(1))
  show "p_visionPolygon (fst (snd (get_visionPolygon env s w))) = p_visionPolygon s"
    by (rule k(2))
  show "p_visionBbox (fst (snd (get_visionPolygon env s w))) = p_visionBbox s"
    by (rule k(3))
  show "visionIteration (fst (snd (get_visionPolygon env s w))) = visionIteration s"
    by (rule k(4))
next
  assume other: "f' \<noteq> f \<and> getVisionIteration w f = visionIteration s \<and> p_visionPolygon s \<noteq> None"
  let ?w = "w\<lparr>getVisionIteration := (getVisionIteration w)(f' := n)\<rparr>"
  have "getVisionIteration ?w f = visionIteration s"
    using other by simp
  from get_visionPolygon_fresh(1) [OF assms this, of env] other
  show "events (snd (snd (get_visionPolygon env s ?w))) = events w"
    by simp
qed

theorem visionPolygon_recomputes_iff_stale_witness:
  "floorId exampleShape = Some 0
   \<and> getVisionIteration exampleWorld 0 \<noteq> visionIteration exampleShape
   \<and> events (snd (snd (get_visionPolygon exampleEnv exampleShape exampleWorld)))
        = [ComputeVisibility (toGP 0 0) VISION 0]
   \<and> visionIteration (fst (snd (get_visionPolygon exampleEnv exampleShape exampleWorld))) = 0
   \<and> floorId cachedShape = Some 0
   \<and> getVisionIteration cachedWorld 0 = visionIteration cachedShape
   \<and> p_visionPolygon cachedShape \<noteq> None
   \<and> events (snd (snd (get_visionPolygon exampleEnv cachedShape cachedWorld))) = events cachedWorld
   \<and> events (snd (snd (get_visionPolygon exampleEnv cachedShape
                (cachedWorld\<lparr>getVisionIteration := (getVisionIteration cachedWorld)(1 := 7)\<rparr>))))
        = events cachedWorld"
proof -
  have h1: "floorId exampleShape = Some 0"
    by (simp add: scene_defs)
  have h2: "getVisionIteration exampleWorld 0 \<noteq> visionIteration exampleShape"
    by (simp add: scene_defs)
  have h3: "floorId cachedShape = Some 0"
    by (simp add: scene_defs)
  have h4: "getVisionIteration cachedWorld 0 = visionIteration cachedShape"
    "p_visionPolygon cachedShape \<noteq> None"
    by (simp_all add: scene_defs)
  have e: "events exampleWorld = []" "p_center exampleShape = toGP 0 0"
    "getVisionIteration exampleWorld 0 = 0"
    by (simp_all add: scene_defs)
  from visionPolygon_recomputes_iff_stale [OF h1, of exampleWorld exampleEnv 1 7]
    visionPolygon_recomputes_iff_stale [OF h3, of cachedWorld exampleEnv 1 7] h1 h2 h3 h4 e
  show ?thesis
    by simp
qed

text \<open>
  C4. A read of \<open>visionPolygon\<close> on a shape without a floor returns a newly allocated
  path on which nothing was drawn; it raises no error, leaves the shape as it was and
  adds nothing to the trace (the world only gains the new object).
\<close>

theorem visionPolygon_no_floor:
  assumes "floorId s = None"
  shows "get_visionPolygon env s w =
           (Inr (nextPath2D w), s,
            w\<lparr>path2d := (path2d w)(nextPath2D w \<mapsto> []), nextPath2D := Suc (nextPath2D w)\<rparr>)"
  using assms by (simp add: get_visionPolygon_def newPath2D_def)

theorem visionPolygon_no_floor_witness:
  "floorId floorlessShape = None
   \<and> fst (get_visionPolygon exampleEnv floorlessShape cachedWorld) = Inr 1
   \<and> fst (snd (get_visionPolygon exampleEnv floorlessShape cachedWorld)) = floorlessShape
   \<and> path2d (snd (snd (get_visionPolygon exampleEnv floorlessShape cachedWorld))) 1 = Some []
   \<and> events (snd (snd (get_visionPolygon exampleEnv floorlessShape cachedWorld))) = events cachedWorld"
proof -
  have h: "floorId floorlessShape = None"
    by (simp add: scene_defs)
  have n: "nextPath2D cachedWorld = 1"
    by (simp add: scene_defs)
  from visionPolygon_no_floor [OF h, of exampleEnv cachedWorld] h n show ?thesis
    by simp
qed

text \<open>
  C5. For a shape with a floor whose vision iteration is not negative, the read that
  follows \<open>resetVisionIteration\<close> calls \<open>computeVisibility\<close>, whatever the stored
  iteration was and whether or not the counter moved: the stored iteration is \<open>-1\<close>,
  which no such counter equals. The read stores the polygon answered and the iteration
  found.
\<close>

theorem resetVisionIteration_forces_recompute:
  assumes "floorId s = Some f" and "0 \<le> getVisionIteration w f"
  shows "events (snd (snd (get_visionPolygon env (resetVisionIteration s) w)))
           = events w @ [ComputeVisibility (p_center s) VISION f]
       \<and> p_visionPolygon (fst (snd (get_visionPolygon env (resetVisionIteration s) w)))
           = Some (visibility w (p_center s) VISION f)
       \<and> visionIteration (fst (snd (get_visionPolygon env (resetVisionIteration s) w)))
           = getVisionIteration w f"
  using assms
  by (simp add: get_visionPolygon_def resetVisionIteration_def Let_def emit_def
      rebuildVisionPath_fields recalcVisionBbox_fields split: option.splits)

theorem resetVisionIteration_forces_recompute_witness:
  "floorId cachedShape = Some 0 \<and> 0 \<le> getVisionIteration cachedWorld 0
   \<and> events (snd (snd (get_visionPolygon exampleEnv (resetVisionIteration cachedShape) cachedWorld)))
        = [ComputeVisibility (toGP 0 0) VISION 0, ComputeVisibility (toGP 0 0) VISION 0]"
proof -
  have h1: "floorId cachedShape = Some 0"
    by (simp add: scene_defs)
  have h2: "0 \<le> getVisionIteration cachedWorld 0"
    by (simp add: scene_defs)
  have e: "events cachedWorld = [ComputeVisibility (toGP 0 0) VISION 0]"
    "p_center cachedShape = toGP 0 0"
    by (simp_all add: scene_defs)
  from resetVisionIteration_forces_recompute [OF h1 h2, of exampleEnv] h1 h2 e show ?thesis
    by simp
qed

subsection \<open>Notifying the vision state\<close>




subsection \<open>The derived bounding box and path\<close>






subsection \<open>Position and layer points\<close>

text \<open>
  C9. \<open>setPositionRepresentation\<close> with a position whose list of points is empty
  returns at once: the shape (reference point, centre, angle, stored iterations, cache)
  and the world (the trace of triangulation, recalculation and invalidation calls, the
  layer points) are exactly what they were.
\<close>

theorem setPositionRepresentation_empty_noop:
  "setPositionRepresentation env s w \<lparr>pos_angle = a, pos_points = []\<rparr> = (Inr (), s, w)"
  by (simp add: setPositionRepresentation_def)

text \<open>
  C10. For a shape whose layer \<open>l\<close> resolves, after \<open>updateLayerPoints\<close> the map of
  layer \<open>l\<close> holds the shape's id under a key exactly when the key is the string of one
  of the shape's points; the call leaves no empty set behind (an empty set in the map
  afterwards was there before, under the same key), so a map without empty sets stays
  so; keys stay distinct; and the entries of every other id are as they were.
\<close>

theorem updateLayerPoints_index:
  assumes "get_layer s w = Some l"
  shows "(\<forall>k. (\<exists>ids. (k, ids) \<in> set (layerPoints (updateLayerPoints env s w) l) \<and> shapeId s \<in> ids)
              = (k \<in> stringify env ` set (p_points s)))
       \<and> (\<forall>k. (k, {}) \<in> set (layerPoints (updateLayerPoints env s w) l)
              \<longrightarrow> (k, {}) \<in> set (layerPoints w l))
       \<and> ({} \<notin> snd ` set (layerPoints w l)
            \<longrightarrow> {} \<notin> snd ` set (layerPoints (updateLayerPoints env s w) l))
       \<and> (distinct (map fst (layerPoints w l))
            \<longrightarrow> distinct (map fst (layerPoints (updateLayerPoints env s w) l)))
       \<and> (\<forall>j k. j \<noteq> shapeId s \<longrightarrow>
             (\<exists>ids. (k, ids) \<in> set (layerPoints (updateLayerPoints env s w) l) \<and> j \<in> ids)
               = (\<exists>ids. (k, ids) \<in> set (layerPoints w l) \<and> j \<in> ids))"
proof (intro conjI allI impI)
  fix k
  have "\<not> (\<exists>ids. (k, ids) \<in> set (removeFromPoints (shapeId s) (layerPoints w l)) \<and> shapeId s \<in> ids)"
    using removeFromPoints_absent by blast
  then show "(\<exists>ids. (k, ids) \<in> set (layerPoints (updateLayerPoints env s w) l) \<and> shapeId s \<in> ids)
              = (k \<in> stringify env ` set (p_points s))"
    unfolding updateLayerPoints_layer [OF assms] addAllPoints_member by blast
next
  fix k
  assume "(k, {}) \<in> set (layerPoints (updateLayerPoints env s w) l)"
  then show "(k, {}) \<in> set (layerPoints w l)"
    unfolding updateLayerPoints_layer [OF assms]
    by (blast dest: addAllPoints_empty removeFromPoints_empty)
next
  assume ne: "{} \<notin> snd ` set (layerPoints w l)"
  show "{} \<notin> snd ` set (layerPoints (updateLayerPoints env s w) l)"
  proof
    assume "{} \<in> snd ` set (layerPoints (updateLayerPoints env s w) l)"
    then obtain k where "(k, {}) \<in> set (layerPoints (updateLayerPoints env s w) l)"
      by force
    then have "(k, {}) \<in> set (layerPoints w l)"
      unfolding updateLayerPoints_layer [OF assms]
      by (blast dest: addAllPoints_empty removeFromPoints_empty)
    with ne show False
      by force
  qed
next
  assume "distinct (map fst (layerPoints w l))"
  then show "distinct (map fst (layerPoints (updateLayerPoints env s w) l))"
    unfolding updateLayerPoints_layer [OF assms]
    by (intro addAllPoints_distinct removeFromPoints_distinct)
next
  fix j k
  assume "j \<noteq> shapeId s"
  then show "(\<exists>ids. (k, ids) \<in> set (layerPoints (updateLayerPoints env s w) l) \<and> j \<in> ids)
               = (\<exists>ids. (k, ids) \<in> set (layerPoints w l) \<and> j \<in> ids)"
    unfolding updateLayerPoints_layer [OF assms] addAllPoints_member
    by (simp add: removeFromPoints_others)
qed

text \<open>
  In the scene the token was registered under \<open>[0,0]\<close> (with shape 2) and \<open>[5,5]\<close>
  (alone) and now has the points \<open>(0, 0)\<close> and \<open>(1, 0)\<close>: the key \<open>[5,5]\<close> is deleted,
  the key \<open>[1,0]\<close> is new, and the entry of shape 2 under \<open>[7,7]\<close> is untouched.
\<close>

theorem updateLayerPoints_index_witness:
  "get_layer exampleShape exampleWorld = Some 0
   \<and> layerPoints (updateLayerPoints exampleEnv exampleShape exampleWorld) 0
       = [(''[0,0]'', {1, 2}), (''[7,7]'', {2}), (''[1,0]'', {1})]
   \<and> (\<exists>ids. (''[1,0]'', ids) \<in> set (layerPoints (updateLayerPoints exampleEnv exampleShape exampleWorld) 0)
          \<and> shapeId exampleShape \<in> ids)
   \<and> \<not> (\<exists>ids. (''[5,5]'', ids) \<in> set (layerPoints (updateLayerPoints exampleEnv exampleShape exampleWorld) 0)
          \<and> shapeId exampleShape \<in> ids)
   \<and> {} \<notin> snd ` set (layerPoints (updateLayerPoints exampleEnv exampleShape exampleWorld) 0)
   \<and> distinct (map fst (layerPoints (updateLayerPoints exampleEnv exampleShape exampleWorld) 0))"
proof -
  have h: "get_layer exampleShape exampleWorld = Some 0"
    by (simp add: scene_defs get_layer_def get_floor_def)
  have pre: "{} \<notin> snd ` set (layerPoints exampleWorld 0)"
    "distinct (map fst (layerPoints exampleWorld 0))"
    by (simp_all add: scene_defs)
  have img: "''[1,0]'' \<in> stringify exampleEnv ` set (p_points exampleShape)"
    "''[5,5]'' \<notin> stringify exampleEnv ` set (p_points exampleShape)"
    by (simp_all add: scene_defs exampleStringify_def)
  have run: "layerPoints (updateLayerPoints exampleEnv exampleShape exampleWorld) 0
       = [(''[0,0]'', {1, 2}), (''[7,7]'', {2}), (''[1,0]'', {1})]"
    by (simp add: scene_defs updateLayerPoints_def get_layer_def get_floor_def
        exampleStringify_def insert_commute)
  from updateLayerPoints_index [OF h, of exampleEnv] h pre img run show ?thesis
    by blast
qed

end
